theory Spec2Isabelle
  imports Complex_Main "HOL-Library.Log_Nat"
begin

section \<open>Strings\<close>

text \<open>
  The program is TypeScript (\<^verbatim>\<open>src/App.tsx\<close>). Its strings are sequences of code units;
  they are modelled as \<^typ>\<open>string\<close>, one \<^typ>\<open>char\<close> per code unit, which covers the code
  units below 256 (ASCII and Latin-1). \<^verbatim>\<open>s.length === 0\<close> is \<open>s = []\<close>.
\<close>

definition SP :: char where
  "SP = CHR '' ''"

text \<open>
  \<^verbatim>\<open>String.prototype.trim\<close> removes leading and trailing WhiteSpace and LineTerminator
  code points. Below 256 these are TAB, LF, VT, FF, CR, SPACE and NO-BREAK SPACE.
\<close>

definition isWhiteSpace :: "char \<Rightarrow> bool" where
  "isWhiteSpace c = ((of_char c :: nat) \<in> {9, 10, 11, 12, 13, 32, 160})"

definition trimStart :: "string \<Rightarrow> string" where
  "trimStart s = dropWhile isWhiteSpace s"

definition trim :: "string \<Rightarrow> string" where
  "trim s = rev (dropWhile isWhiteSpace (rev (dropWhile isWhiteSpace s)))"

text \<open>
  \<^verbatim>\<open>s.split(sep)\<close> for a separator of one code unit: the pieces between the occurrences
  of the separator, in order. The array is never empty (\<^verbatim>\<open>''.split(' ')\<close> is \<^verbatim>\<open>['']\<close>).
\<close>

fun split :: "char \<Rightarrow> string \<Rightarrow> string list" where
  "split sep [] = [[]]"
| "split sep (c # cs) =
     (if c = sep then [] # split sep cs
      else (case split sep cs of
              [] \<Rightarrow> [[c]]
            | w # ws \<Rightarrow> (c # w) # ws))"

section \<open>The regular expression of the numeric-token extractor\<close>

text \<open>
  \<^verbatim>\<open>\d\<close> without the unicode flag is the ten ASCII digits.
\<close>

definition isDigit :: "char \<Rightarrow> bool" where
  "isDigit c = (c \<in> set ''0123456789'')"

text \<open>
  \<^verbatim>\<open>/^-?\d*\.?\d*$/.test(word)\<close>. The expression has no alternative and no flag, so
  \<^verbatim>\<open>^\<close> and \<^verbatim>\<open>$\<close> are the two ends of the input. The matcher below reads the input
  from the left, each quantifier taking as much as it can, and accepts when nothing
  is left; \<open>numberPattern_iff\<close> shows that this is the language of the expression.
\<close>

definition dropOpt :: "char \<Rightarrow> string \<Rightarrow> string" where
  "dropOpt c s = (case s of [] \<Rightarrow> [] | d # ds \<Rightarrow> if d = c then ds else s)"

definition numberPattern :: "string \<Rightarrow> bool" where
  "numberPattern w =
     (dropWhile isDigit (dropOpt CHR ''.'' (dropWhile isDigit (dropOpt CHR ''-'' w))) = [])"

text \<open>The language of the expression, written out: sign, digits, point, digits.\<close>

definition inNumberLanguage :: "string \<Rightarrow> bool" where
  "inNumberLanguage w =
     (\<exists>sgn a pt b. w = sgn @ a @ pt @ b \<and> (sgn = [] \<or> sgn = ''-'') \<and>
        (\<forall>c \<in> set a. isDigit c) \<and> (pt = [] \<or> pt = ''.'') \<and> (\<forall>c \<in> set b. isDigit c))"

section \<open>NumberHandler.extractFirstWord\<close>

text \<open>
  \<^verbatim>\<open>
  public static extractFirstWord = (text: string): string => {
    const word = text.trim().split(' ')[0]
    if (word.length === 0) return ''
    return /^-?\d*\.?\d*$/.test(word) ? word : ''
  }
  \<close>
  Element 0 of the array exists (\<open>split_not_Nil\<close>), so \<open>hd\<close> reads it.
\<close>

definition extractFirstWord :: "string \<Rightarrow> string" where
  "extractFirstWord txt =
     (let word = hd (split SP (trim txt))
      in if word = [] then [] else if numberPattern word then word else [])"

section \<open>Numbers\<close>

text \<open>
  A Number of the language is an IEEE 754 binary64 value: not-a-number, an infinity,
  or a finite value with a sign bit and a magnitude. \<open>Finite sg m\<close> has the sign bit
  \<open>sg\<close> (\<open>True\<close> for minus) and the magnitude \<open>m \<ge> 0\<close>, a rational that binary64
  represents; \<open>Finite True 0\<close> is the negative zero. Every arithmetic operation is the
  exact operation on the rationals followed by rounding to the nearest representable
  value, ties to the even significand (ECMA-262, clause 6.1.6.1).
\<close>

datatype number = NaN | Infinity bool | Finite bool rat

definition pow2 :: "int \<Rightarrow> rat" where
  "pow2 e = (if 0 \<le> e then 2 ^ nat e else 1 / 2 ^ nat (- e))"

definition pow10 :: "int \<Rightarrow> rat" where
  "pow10 e = (if 0 \<le> e then 10 ^ nat e else 1 / 10 ^ nat (- e))"

text \<open>
  For \<open>q > 0\<close> and \<open>b > 1\<close>, \<open>floorlogRat b q\<close> is the greatest \<open>e\<close> with
  \<open>b ^ e \<le> q\<close>. From \<open>1\<close> on it is one less than the number of digits of \<open>\<lfloor>q\<rfloor>\<close>
  in base \<open>b\<close>; below \<open>1\<close> it is \<open>- m\<close> for the least \<open>m\<close> with \<open>1 / q \<le> b ^ m\<close>,
  the number of digits of \<open>\<lceil>1 / q\<rceil> - 1\<close>.
\<close>

definition floorlogRat :: "nat \<Rightarrow> rat \<Rightarrow> int" where
  "floorlogRat b q =
     (if 1 \<le> q then int (floorlog b (nat \<lfloor>q\<rfloor>)) - 1
      else - int (floorlog b (nat (\<lceil>1 / q\<rceil> - 1))))"

definition roundHalfEven :: "rat \<Rightarrow> int" where
  "roundHalfEven q =
     (let f = \<lfloor>q\<rfloor>; d = q - of_int f
      in if d < 1 / 2 then f else if 1 / 2 < d then f + 1
         else if even f then f else f + 1)"

text \<open>
  Rounding a magnitude \<open>q \<ge> 0\<close> to binary64: 53 significant bits, the least exponent
  of a unit in the last place is \<open>-1074\<close> (subnormal values), and a result of
  \<open>2 ^ 1024\<close> or more is an overflow (\<open>None\<close>).
\<close>

definition roundMagnitude :: "rat \<Rightarrow> rat option" where
  "roundMagnitude q =
     (if q \<le> 0 then Some 0
      else let e = max (floorlogRat 2 q) (- 1022);
               u = pow2 (e - 52);
               r = of_int (roundHalfEven (q / u)) * u
           in if pow2 1024 \<le> r then None else Some r)"

definition fromRat :: "bool \<Rightarrow> rat \<Rightarrow> number" where
  "fromRat sg q = (case roundMagnitude q of None \<Rightarrow> Infinity sg | Some r \<Rightarrow> Finite sg r)"

text \<open>The Number nearest a rational, and the rational a finite Number stands for.\<close>

definition ofRat :: "rat \<Rightarrow> number" where
  "ofRat q = fromRat (q < 0) \<bar>q\<bar>"

definition signed :: "bool \<Rightarrow> rat \<Rightarrow> rat" where
  "signed sg m = (if sg then - m else m)"

text \<open>
  \<^verbatim>\<open>x + y\<close> (Number::add). An exact sum of zero is the negative zero only when both
  operands are negative zeros.
\<close>

fun num_add :: "number \<Rightarrow> number \<Rightarrow> number" where
  "num_add NaN y = NaN"
| "num_add x NaN = NaN"
| "num_add (Infinity s) (Infinity t) = (if s = t then Infinity s else NaN)"
| "num_add (Infinity s) (Finite t b) = Infinity s"
| "num_add (Finite s a) (Infinity t) = Infinity t"
| "num_add (Finite s a) (Finite t b) =
     (let v = signed s a + signed t b
      in if v = 0 then Finite (s \<and> t) 0 else ofRat v)"

fun num_neg :: "number \<Rightarrow> number" where
  "num_neg NaN = NaN"
| "num_neg (Infinity s) = Infinity (\<not> s)"
| "num_neg (Finite s a) = Finite (\<not> s) a"

text \<open>\<^verbatim>\<open>x - y\<close> (Number::subtract) is \<open>x + (-y)\<close>.\<close>

definition num_sub :: "number \<Rightarrow> number \<Rightarrow> number" where
  "num_sub x y = num_add x (num_neg y)"

text \<open>\<^verbatim>\<open>x * y\<close> (Number::multiply).\<close>

fun num_mul :: "number \<Rightarrow> number \<Rightarrow> number" where
  "num_mul NaN y = NaN"
| "num_mul x NaN = NaN"
| "num_mul (Infinity s) (Infinity t) = Infinity (s \<noteq> t)"
| "num_mul (Infinity s) (Finite t b) = (if b = 0 then NaN else Infinity (s \<noteq> t))"
| "num_mul (Finite s a) (Infinity t) = (if a = 0 then NaN else Infinity (s \<noteq> t))"
| "num_mul (Finite s a) (Finite t b) = fromRat (s \<noteq> t) (a * b)"

text \<open>\<^verbatim>\<open>x / y\<close> (Number::divide).\<close>

fun num_div :: "number \<Rightarrow> number \<Rightarrow> number" where
  "num_div NaN y = NaN"
| "num_div x NaN = NaN"
| "num_div (Infinity s) (Infinity t) = NaN"
| "num_div (Infinity s) (Finite t b) = Infinity (s \<noteq> t)"
| "num_div (Finite s a) (Infinity t) = Finite (s \<noteq> t) 0"
| "num_div (Finite s a) (Finite t b) =
     (if b = 0 then (if a = 0 then NaN else Infinity (s \<noteq> t))
      else fromRat (s \<noteq> t) (a / b))"

text \<open>
  \<^verbatim>\<open>Math.round(x)\<close>: the integer nearest \<open>x\<close>, a tie going up; not-a-number, the
  infinities and the zeros are returned as they are, and a result of zero keeps the
  sign of \<open>x\<close>. The integer is \<open>\<lfloor>x + 1/2\<rfloor>\<close>, which binary64 represents.
\<close>

fun Math_round :: "number \<Rightarrow> number" where
  "Math_round NaN = NaN"
| "Math_round (Infinity s) = Infinity s"
| "Math_round (Finite s a) = Finite s (of_int \<bar>\<lfloor>signed s a + 1 / 2\<rfloor>\<bar>)"

fun isNaN :: "number \<Rightarrow> bool" where
  "isNaN NaN = True"
| "isNaN x = False"

fun isFinite :: "number \<Rightarrow> bool" where
  "isFinite (Finite s a) = True"
| "isFinite x = False"

section \<open>Strings to Numbers\<close>

definition digitVal :: "char \<Rightarrow> nat" where
  "digitVal c = of_char c - 48"

text \<open>The mathematical value of a sequence of decimal digits.\<close>

definition digitsValue :: "string \<Rightarrow> nat" where
  "digitsValue ds = foldl (\<lambda>acc c. 10 * acc + digitVal c) 0 ds"

definition startsWith :: "string \<Rightarrow> string \<Rightarrow> bool" where
  "startsWith p s = (take (length p) s = p)"

text \<open>
  ExponentPart of the grammar of numeric strings (ECMA-262, clause 7.1.4.1):
  \<^verbatim>\<open>e\<close> or \<^verbatim>\<open>E\<close>, an optional sign, and at least one digit. \<open>scanExponent s\<close> is the
  exponent read at the start of \<open>s\<close> and what follows it, or \<open>(0, s)\<close> when \<open>s\<close>
  does not start with an exponent part.
\<close>

definition scanExponent :: "string \<Rightarrow> int \<times> string" where
  "scanExponent s =
     (case s of
        [] \<Rightarrow> (0, s)
      | c # r \<Rightarrow>
          if c = CHR ''e'' \<or> c = CHR ''E'' then
            (let sg = (r \<noteq> [] \<and> hd r = CHR ''-'');
                 r1 = (if r \<noteq> [] \<and> (hd r = CHR ''+'' \<or> hd r = CHR ''-'') then tl r else r);
                 ds = takeWhile isDigit r1
             in if ds = [] then (0, s)
                else ((if sg then - int (digitsValue ds) else int (digitsValue ds)),
                      dropWhile isDigit r1))
          else (0, s))"

text \<open>
  The longest prefix of \<open>s\<close> that is a StrUnsignedDecimalLiteral: \<^verbatim>\<open>Infinity\<close>, or
  digits with an optional point, fraction and exponent, at least one digit before
  the exponent. The result is the mathematical value of the prefix (\<open>None\<close> for
  \<^verbatim>\<open>Infinity\<close>) and the rest of \<open>s\<close>; there is no result when no prefix is a literal.
\<close>

definition scanUnsigned :: "string \<Rightarrow> (rat option \<times> string) option" where
  "scanUnsigned s =
     (if startsWith ''Infinity'' s then Some (None, drop 8 s)
      else let ip = takeWhile isDigit s; r1 = dropWhile isDigit s
           in if r1 \<noteq> [] \<and> hd r1 = CHR ''.'' then
                (let fp = takeWhile isDigit (tl r1); r2 = dropWhile isDigit (tl r1)
                 in if ip = [] \<and> fp = [] then None
                    else let (e, r3) = scanExponent r2
                         in Some (Some (of_nat (digitsValue (ip @ fp))
                                         * pow10 (e - int (length fp))), r3))
              else if ip = [] then None
              else let (e, r3) = scanExponent r1
                   in Some (Some (of_nat (digitsValue ip) * pow10 e), r3))"

text \<open>StrDecimalLiteral: an optional sign \<^verbatim>\<open>+\<close> or \<^verbatim>\<open>-\<close> before the unsigned literal.\<close>

definition scanDecimal :: "string \<Rightarrow> (number \<times> string) option" where
  "scanDecimal s =
     (let sg = (s \<noteq> [] \<and> hd s = CHR ''-'');
          r = (if s \<noteq> [] \<and> (hd s = CHR ''+'' \<or> hd s = CHR ''-'') then tl s else s)
      in case scanUnsigned r of
           None \<Rightarrow> None
         | Some (None, r') \<Rightarrow> Some (Infinity sg, r')
         | Some (Some q, r') \<Rightarrow> Some (fromRat sg q, r'))"

text \<open>
  \<^verbatim>\<open>parseFloat(text)\<close>: leading white space is skipped, the longest prefix that is a
  StrDecimalLiteral is converted, and there is not-a-number when no prefix is one.
\<close>

definition parseFloat :: "string \<Rightarrow> number" where
  "parseFloat s = (case scanDecimal (trimStart s) of None \<Rightarrow> NaN | Some (x, r) \<Rightarrow> x)"

text \<open>NonDecimalIntegerLiteral: \<^verbatim>\<open>0b\<close>, \<^verbatim>\<open>0o\<close> or \<^verbatim>\<open>0x\<close> (either case) and digits of the base.\<close>

definition hexVal :: "char \<Rightarrow> nat option" where
  "hexVal c =
     (let n = (of_char c :: nat)
      in if 48 \<le> n \<and> n \<le> 57 then Some (n - 48)
         else if 65 \<le> n \<and> n \<le> 70 then Some (n - 55)
         else if 97 \<le> n \<and> n \<le> 102 then Some (n - 87)
         else None)"

definition baseDigits :: "nat \<Rightarrow> string \<Rightarrow> nat option" where
  "baseDigits b ds =
     (if ds \<noteq> [] \<and> (\<forall>c \<in> set ds. case hexVal c of None \<Rightarrow> False | Some v \<Rightarrow> v < b)
      then Some (foldl (\<lambda>acc c. b * acc + the (hexVal c)) 0 ds)
      else None)"

definition nonDecimal :: "string \<Rightarrow> nat option" where
  "nonDecimal s =
     (if startsWith ''0x'' s \<or> startsWith ''0X'' s then baseDigits 16 (drop 2 s)
      else if startsWith ''0o'' s \<or> startsWith ''0O'' s then baseDigits 8 (drop 2 s)
      else if startsWith ''0b'' s \<or> startsWith ''0B'' s then baseDigits 2 (drop 2 s)
      else None)"

text \<open>
  \<^verbatim>\<open>Number(text)\<close> on a string (StringToNumber): white space around the text is
  dropped; the empty text is \<open>+0\<close>; a text that is a StrDecimalLiteral or a
  NonDecimalIntegerLiteral as a whole is converted; any other text is not-a-number.
\<close>

definition Number :: "string \<Rightarrow> number" where
  "Number s =
     (let t = trim s
      in if t = [] then Finite False 0
         else case scanDecimal t of
                Some (x, []) \<Rightarrow> x
              | _ \<Rightarrow> (case nonDecimal t of None \<Rightarrow> NaN | Some n \<Rightarrow> fromRat False (of_nat n)))"

section \<open>Numbers to strings\<close>

definition digitChar :: "nat \<Rightarrow> char" where
  "digitChar d = ''0123456789'' ! d"

text \<open>The \<open>k\<close> decimal digits of \<open>s\<close>, the most significant first.\<close>

definition showDigits :: "nat \<Rightarrow> nat \<Rightarrow> string" where
  "showDigits k s = map (\<lambda>i. digitChar (s div 10 ^ i mod 10)) (rev [0..<k])"

definition showNat :: "nat \<Rightarrow> string" where
  "showNat n = (if n = 0 then ''0'' else showDigits (floorlog 10 n) n)"

text \<open>
  Number::toString (ECMA-262, clause 6.1.6.1.20) writes a finite \<open>x > 0\<close> with the
  integers \<open>n\<close>, \<open>k\<close>, \<open>s\<close> such that \<open>k \<ge> 1\<close>, \<open>10 ^ (k - 1) \<le> s < 10 ^ k\<close>,
  \<open>s * 10 ^ (n - k)\<close> rounds to \<open>x\<close>, and \<open>k\<close> is as small as possible; of several such
  \<open>s\<close> it is the one nearest \<open>x\<close> (the standard's recommendation, which the engines
  follow).

  With \<open>10 ^ (n0 - 1) \<le> x < 10 ^ n0\<close>, the decimals of \<open>k\<close> digits nearest \<open>x\<close> are
  \<open>\<lfloor>x / 10 ^ (n0 - k)\<rfloor>\<close> and its successor; \<open>candidates\<close> lists them, the nearer first,
  and keeps those that round to \<open>x\<close>. Seventeen digits always identify a binary64 value.
\<close>

definition roundsTo :: "rat \<Rightarrow> int \<Rightarrow> nat \<Rightarrow> nat \<Rightarrow> bool" where
  "roundsTo x n0 k s =
     (10 ^ (k - 1) \<le> s \<and> s \<le> 10 ^ k \<and>
      roundMagnitude (of_nat s * pow10 (n0 - int k)) = Some x)"

definition candidates :: "rat \<Rightarrow> int \<Rightarrow> nat \<Rightarrow> nat list" where
  "candidates x n0 k =
     (let sc = x / pow10 (n0 - int k);
          lo = nat \<lfloor>sc\<rfloor>;
          hi = lo + 1;
          dl = sc - of_nat lo;
          dh = of_nat hi - sc;
          both = (if dl < dh then [lo, hi] else if dh < dl then [hi, lo]
                  else if even lo then [lo, hi] else [hi, lo])
      in filter (roundsTo x n0 k) both)"

definition enoughDigits :: "rat \<Rightarrow> int \<Rightarrow> nat \<Rightarrow> bool" where
  "enoughDigits x n0 k = (candidates x n0 k \<noteq> [])"

text \<open>
  The triple \<open>(n, k, s)\<close> of a finite \<open>x > 0\<close>. A first candidate of \<open>10 ^ k\<close> is the
  decimal \<open>10 ^ n0\<close>, which has the one digit \<open>1\<close> and \<open>n = n0 + 1\<close>.
\<close>

definition shortest :: "rat \<Rightarrow> int \<times> nat \<times> nat" where
  "shortest x =
     (let n0 = floorlogRat 10 x + 1
      in case find (enoughDigits x n0) [1..<18] of
           None \<Rightarrow> (n0, 17, nat \<lfloor>x / pow10 (n0 - 17)\<rfloor>)
         | Some k \<Rightarrow>
             (let s = hd (candidates x n0 k)
              in if s = 10 ^ k then (n0 + 1, 1, 1) else (n0, k, s)))"

text \<open>
  The text of \<open>x > 0\<close> from its triple: positional notation for \<open>-5 \<le> n \<le> 21\<close>,
  scientific notation otherwise.
\<close>

definition formatPositive :: "rat \<Rightarrow> string" where
  "formatPositive x =
     (let (n, k, s) = shortest x; ds = showDigits k s
      in if - 5 \<le> n \<and> n \<le> 21 then
           (if int k \<le> n then ds @ replicate (nat n - k) CHR ''0''
            else if 0 < n then take (nat n) ds @ ''.'' @ drop (nat n) ds
            else ''0.'' @ replicate (nat (- n)) CHR ''0'' @ ds)
         else
           (let ex = (if n < 0 then ''-'' else ''+'') @ showNat (nat \<bar>n - 1\<bar>)
            in if k = 1 then ds @ ''e'' @ ex
               else take 1 ds @ ''.'' @ drop 1 ds @ ''e'' @ ex))"

text \<open>
  \<^verbatim>\<open>x.toString()\<close> and the text of \<open>x\<close> in a template literal
  (\<^verbatim>\<open>`${x}`\<close>), both Number::toString with radix 10.
\<close>

fun toString :: "number \<Rightarrow> string" where
  "toString NaN = ''NaN''"
| "toString (Infinity s) = (if s then ''-Infinity'' else ''Infinity'')"
| "toString (Finite s a) =
     (if a = 0 then ''0''
      else (if s then ''-'' else []) @ formatPositive a)"

section \<open>NumberHandler\<close>

text \<open>
  \<^verbatim>\<open>const INCREMENT = 0.1\<close>. A numeric literal of the source is the Number nearest
  its decimal value; \<^verbatim>\<open>1e8\<close> and \<^verbatim>\<open>2\<close> are represented exactly.
\<close>

definition INCREMENT :: number where
  "INCREMENT = ofRat (1 / 10)"

definition lit_1e8 :: number where
  "lit_1e8 = ofRat 100000000"

definition lit_2 :: number where
  "lit_2 = ofRat 2"


text \<open>\<^verbatim>\<open>public static precise = (num: number) => Math.round(num * 1e8) / 1e8\<close>\<close>

definition precise :: "number \<Rightarrow> number" where
  "precise num = num_div (Math_round (num_mul num lit_1e8)) lit_1e8"

text \<open>\<^verbatim>\<open>private static isValidNumber = (num: number) => !isNaN(num) && isFinite(num)\<close>\<close>

definition isValidNumber :: "number \<Rightarrow> bool" where
  "isValidNumber num = (\<not> isNaN num \<and> isFinite num)"

text \<open>
  \<^verbatim>\<open>
  public static incrementIfValid = (text: string, delta: number): string => {
    if (text.length === 0) return `${delta}`
    const num = parseFloat(text) + delta
    return NumberHandler.isValidNumber(num)
      ? `${NumberHandler.precise(num)}`
      : '0'
  }
  \<close>
\<close>

definition incrementIfValid :: "string \<Rightarrow> number \<Rightarrow> string" where
  "incrementIfValid txt delta =
     (if txt = [] then toString delta
      else let num = num_add (parseFloat txt) delta
           in if isValidNumber num then toString (precise num) else ''0'')"

section \<open>State and reducer\<close>

datatype Axis = X | Y

record State =
  axis :: Axis
  previousPosition :: string
  offsetStart :: string
  offsetEnd :: string
  result :: string
  finished :: bool

text \<open>
  The type \<^verbatim>\<open>Action\<close>: one constructor for each key of \<^verbatim>\<open>ActionMap\<close>, with its
  payload. The \<^verbatim>\<open>default\<close> branch of the reducer is not reachable from a value of
  this type.
\<close>

datatype Action =
    SET_AXIS Axis
  | SET_PREVIOUS_POSITION string
  | SET_OFFSET_START string
  | SET_OFFSET_END string
  | SET_RESULT string
  | SET_FINISHED bool
  | INCREMENT_PREVIOUS_POSITION number
  | INCREMENT_OFFSET_START number
  | INCREMENT_OFFSET_END number
  | RESET

definition initialState :: State where
  "initialState =
     \<lparr>axis = X, previousPosition = [], offsetStart = [], offsetEnd = [],
      result = [], finished = False\<rparr>"

fun reducer :: "State \<Rightarrow> Action \<Rightarrow> State" where
  "reducer state (SET_AXIS payload) = state\<lparr>axis := payload\<rparr>"
| "reducer state (SET_PREVIOUS_POSITION payload) = state\<lparr>previousPosition := payload\<rparr>"
| "reducer state (SET_OFFSET_START payload) = state\<lparr>offsetStart := payload\<rparr>"
| "reducer state (SET_OFFSET_END payload) = state\<lparr>offsetEnd := payload\<rparr>"
| "reducer state (SET_RESULT payload) = state\<lparr>result := payload\<rparr>"
| "reducer state (SET_FINISHED payload) = state\<lparr>finished := payload\<rparr>"
| "reducer state (INCREMENT_PREVIOUS_POSITION payload) =
     state\<lparr>previousPosition := incrementIfValid (previousPosition state) payload\<rparr>"
| "reducer state (INCREMENT_OFFSET_START payload) =
     state\<lparr>offsetStart := incrementIfValid (offsetStart state) payload\<rparr>"
| "reducer state (INCREMENT_OFFSET_END payload) =
     state\<lparr>offsetEnd := incrementIfValid (offsetEnd state) payload\<rparr>"
| "reducer state RESET = initialState"

section \<open>The handlers of App\<close>

text \<open>
  \<^verbatim>\<open>
  const calculateCenter = () => {
    const o1 = Number(offsetStart)
    const o2 = Number(offsetEnd)
    const prev = Number(previousPosition)
    const shift = (o1 + o2) / 2 - o1
    const newPos = NumberHandler.precise(prev - shift).toString()
    navigator.clipboard.writeText(newPos)
    dispatch({ type: 'SET_RESULT', payload: newPos })
    dispatch({ type: 'SET_FINISHED', payload: true })
  }
  \<close>
  \<open>newPosition\<close> is the Number whose text is \<^verbatim>\<open>newPos\<close>. \<open>calculateCenter\<close> returns
  the text written to the clipboard and the state after the two dispatches.
\<close>

definition newPosition :: "State \<Rightarrow> number" where
  "newPosition state =
     (let o1 = Number (offsetStart state);
          o2 = Number (offsetEnd state);
          prev = Number (previousPosition state);
          shift = num_sub (num_div (num_add o1 o2) lit_2) o1
      in precise (num_sub prev shift))"

definition calculateCenter :: "State \<Rightarrow> string \<times> State" where
  "calculateCenter state =
     (let newPos = toString (newPosition state)
      in (newPos, reducer (reducer state (SET_RESULT newPos)) (SET_FINISHED True)))"

text \<open>
  The three rows of the form. Each \<^verbatim>\<open>Row\<close> passes the text of its input through
  \<^verbatim>\<open>extractFirstWord\<close> before \<^verbatim>\<open>onChange\<close> dispatches the setter of its field, and
  its two arrows call \<^verbatim>\<open>onInc\<close> with \<^verbatim>\<open>INCREMENT\<close> and \<^verbatim>\<open>-INCREMENT\<close>.
\<close>

datatype Field = PreviousPosition | OffsetStart | OffsetEnd

fun setter :: "Field \<Rightarrow> string \<Rightarrow> Action" where
  "setter PreviousPosition v = SET_PREVIOUS_POSITION v"
| "setter OffsetStart v = SET_OFFSET_START v"
| "setter OffsetEnd v = SET_OFFSET_END v"

fun incrementer :: "Field \<Rightarrow> number \<Rightarrow> Action" where
  "incrementer PreviousPosition d = INCREMENT_PREVIOUS_POSITION d"
| "incrementer OffsetStart d = INCREMENT_OFFSET_START d"
| "incrementer OffsetEnd d = INCREMENT_OFFSET_END d"

fun field :: "Field \<Rightarrow> State \<Rightarrow> string" where
  "field PreviousPosition state = previousPosition state"
| "field OffsetStart state = offsetStart state"
| "field OffsetEnd state = offsetEnd state"

definition onChange :: "Field \<Rightarrow> string \<Rightarrow> State \<Rightarrow> State" where
  "onChange f v state = reducer state (setter f (extractFirstWord v))"

definition onInc :: "Field \<Rightarrow> number \<Rightarrow> State \<Rightarrow> State" where
  "onInc f d state = reducer state (incrementer f d)"

text \<open>
  The other triggers: the axis toggle, the dialog and its Continue button (both
  dispatch \<^verbatim>\<open>SET_FINISHED\<close> with \<^verbatim>\<open>false\<close>), and the Reset button.
\<close>

definition setAxis :: "Axis \<Rightarrow> State \<Rightarrow> State" where
  "setAxis a state = reducer state (SET_AXIS a)"

definition dismiss :: "State \<Rightarrow> State" where
  "dismiss state = reducer state (SET_FINISHED False)"

definition reset :: "State \<Rightarrow> State" where
  "reset state = reducer state RESET"

text \<open>
  The states the form can be in: the initial state, and a state after any trigger.
  The dialog, with Continue and Reset, is on the screen only while \<open>finished\<close> holds.
\<close>

inductive reachable :: "State \<Rightarrow> bool" where
  init: "reachable initialState"
| axis: "reachable s \<Longrightarrow> reachable (setAxis a s)"
| change: "reachable s \<Longrightarrow> reachable (onChange f v s)"
| incr: "reachable s \<Longrightarrow> reachable (onInc f INCREMENT s)"
| decr: "reachable s \<Longrightarrow> reachable (onInc f (num_neg INCREMENT) s)"
| calc: "reachable s \<Longrightarrow> reachable (snd (calculateCenter s))"
| cont: "reachable s \<Longrightarrow> finished s \<Longrightarrow> reachable (dismiss s)"
| rst: "reachable s \<Longrightarrow> finished s \<Longrightarrow> reachable (reset s)"

text \<open>
  The constraint of the three text fields: the optionally signed decimal pattern
  (which the empty text matches).
\<close>

definition fieldsValid :: "State \<Rightarrow> bool" where
  "fieldsValid state =
     (numberPattern (previousPosition state) \<and> numberPattern (offsetStart state) \<and>
      numberPattern (offsetEnd state))"

text \<open>
  A Number prints in positional notation, without an exponent, when it is a zero or
  the \<open>n\<close> of its triple lies between \<open>-5\<close> and \<open>21\<close>; not-a-number and the
  infinities do not.
\<close>

definition positional :: "number \<Rightarrow> bool" where
  "positional x =
     (case x of
        Finite sg a \<Rightarrow> a = 0 \<or> (case shortest a of (n, k, s) \<Rightarrow> - 5 \<le> n \<and> n \<le> 21)
      | _ \<Rightarrow> False)"

section \<open>The extractor as the specification words it\<close>

text \<open>
  The specification's extractor splits the trimmed text at white space of any kind;
  \<open>extractor_spec\<close> follows these words, to be compared with \<open>extractFirstWord\<close>.
\<close>

definition extractor_spec :: "string \<Rightarrow> string" where
  "extractor_spec txt =
     (let token = takeWhile (\<lambda>c. \<not> isWhiteSpace c) (trim txt)
      in if token = [] then [] else if numberPattern token then token else [])"

section \<open>Lemmas: strings and the pattern\<close>

lemma split_not_Nil: "split sep s \<noteq> []"
  by (induction s) (auto split: list.splits)

lemma hd_split: "hd (split sep s) = takeWhile (\<lambda>c. c \<noteq> sep) s"
  by (induction s) (auto split: list.splits simp: split_not_Nil)

lemma dropOpt_decomp: "\<exists>p. (p = [] \<or> p = [c]) \<and> s = p @ dropOpt c s"
  by (cases s) (auto simp: dropOpt_def)

lemma dropWhile_digits_all:
  "\<forall>c \<in> set a. isDigit c \<Longrightarrow> dropWhile isDigit (a @ r) = dropWhile isDigit r"
  by (induction a) auto

lemma numberPattern_imp_language:
  assumes "numberPattern w"
  shows "inNumberLanguage w"
proof -
  let ?w1 = "dropOpt CHR ''-'' w"
  let ?a = "takeWhile isDigit ?w1"
  let ?r = "dropWhile isDigit ?w1"
  let ?b = "dropOpt CHR ''.'' ?r"
  obtain sgn where sgn: "sgn = [] \<or> sgn = ''-''" "w = sgn @ ?w1"
    using dropOpt_decomp[of "CHR ''-''" w] by auto
  obtain pt where pt: "pt = [] \<or> pt = ''.''" "?r = pt @ ?b"
    using dropOpt_decomp[of "CHR ''.''" ?r] by auto
  have b: "\<forall>c \<in> set ?b. isDigit c"
    using assms by (simp add: numberPattern_def dropWhile_eq_Nil_conv)
  have a: "\<forall>c \<in> set ?a. isDigit c"
    by (auto dest: set_takeWhileD)
  have "?w1 = ?a @ ?r" by simp
  with sgn(2) pt(2) have "w = sgn @ ?a @ pt @ ?b" by metis
  with sgn(1) pt(1) a b show ?thesis
    unfolding inNumberLanguage_def by blast
qed

lemma language_imp_numberPattern:
  assumes "inNumberLanguage w"
  shows "numberPattern w"
proof -
  from assms obtain sgn a pt b where w: "w = sgn @ a @ pt @ b"
    and sgn: "sgn = [] \<or> sgn = ''-''" and a: "\<forall>c \<in> set a. isDigit c"
    and pt: "pt = [] \<or> pt = ''.''" and b: "\<forall>c \<in> set b. isDigit c"
    unfolding inNumberLanguage_def by blast
  have nd: "\<not> isDigit CHR ''-''" "\<not> isDigit CHR ''.''"
    by (simp_all add: isDigit_def)
  have no_sign: "dropOpt CHR ''-'' (a @ pt @ b) = a @ pt @ b"
    using a pt b nd by (cases a; cases b) (auto simp: dropOpt_def)
  have s1: "dropOpt CHR ''-'' w = a @ pt @ b"
  proof (cases "sgn = []")
    case True
    with w no_sign show ?thesis by simp
  next
    case False
    with sgn w show ?thesis by (simp add: dropOpt_def)
  qed
  have s2: "dropWhile isDigit (a @ pt @ b) = dropWhile isDigit (pt @ b)"
    using a by (rule dropWhile_digits_all)
  have db: "dropWhile isDigit b = []"
    using b by (simp add: dropWhile_eq_Nil_conv)
  have s3: "dropWhile isDigit (dropOpt CHR ''.'' (dropWhile isDigit (pt @ b))) = []"
  proof (cases "pt = []")
    case True
    show ?thesis by (simp add: True db dropOpt_def)
  next
    case False
    with pt have "pt = ''.''" by simp
    then show ?thesis by (simp add: nd db dropOpt_def)
  qed
  show ?thesis
    unfolding numberPattern_def s1 s2 by (rule s3)
qed

lemma numberPattern_iff: "numberPattern w \<longleftrightarrow> inNumberLanguage w"
  using numberPattern_imp_language language_imp_numberPattern by blast

lemmas extract_defs =
  extractFirstWord_def hd_split trim_def isWhiteSpace_def SP_def numberPattern_def
  dropOpt_def isDigit_def

section \<open>The numeric-token extractor\<close>

text \<open>
  Claim C3, as the code has it. \<open>extractFirstWord\<close> trims the white space around the
  text and takes what stands before the first space character (U+0020): the array of
  \<^verbatim>\<open>split(' ')\<close> is cut at spaces only, so another white space character inside the
  text (a tab) stays in the token. The token is returned unchanged when it is in the
  language of the pattern (sign, digits, point, digits, each part possibly empty, so
  \<^verbatim>\<open>-\<close> and \<^verbatim>\<open>.\<close> pass), and the empty text is returned otherwise. The six examples of
  the specification hold.
\<close>

theorem extractFirstWord_spec:
  "extractFirstWord txt =
     (let word = takeWhile (\<lambda>c. c \<noteq> CHR '' '') (trim txt)
      in if inNumberLanguage word then word else [])
   \<and> extractFirstWord ''12.5'' = ''12.5''
   \<and> extractFirstWord ''-3.'' = ''-3.''
   \<and> extractFirstWord ''abc'' = []
   \<and> extractFirstWord ''  7 and more'' = ''7''
   \<and> extractFirstWord [] = []
   \<and> extractFirstWord ''12.3.4'' = []
   \<and> extractFirstWord ''-'' = ''-''
   \<and> extractFirstWord ''.'' = ''.''"
proof -
  have "extractFirstWord txt =
     (let word = takeWhile (\<lambda>c. c \<noteq> CHR '' '') (trim txt)
      in if inNumberLanguage word then word else [])"
    by (simp add: extractFirstWord_def hd_split SP_def Let_def numberPattern_iff)
  moreover have "extractFirstWord ''12.5'' = ''12.5''" by (simp add: extract_defs)
  moreover have "extractFirstWord ''-3.'' = ''-3.''" by (simp add: extract_defs)
  moreover have "extractFirstWord ''abc'' = []" by (simp add: extract_defs)
  moreover have "extractFirstWord ''  7 and more'' = ''7''" by (simp add: extract_defs)
  moreover have "extractFirstWord [] = []" by (simp add: extract_defs)
  moreover have "extractFirstWord ''12.3.4'' = []" by (simp add: extract_defs)
  moreover have "extractFirstWord ''-'' = ''-''" by (simp add: extract_defs)
  moreover have "extractFirstWord ''.'' = ''.''" by (simp add: extract_defs)
  ultimately show ?thesis by blast
qed

theorem extractFirstWord_spec_witness:
  "inNumberLanguage ''7'' \<and> trim ''  7 and more'' = ''7 and more'' \<and>
   extractFirstWord ''  7 and more'' = ''7''"
proof -
  have l: "inNumberLanguage ''7''"
    by (simp add: numberPattern_iff [symmetric] numberPattern_def dropOpt_def isDigit_def)
  have t: "trim ''  7 and more'' = ''7 and more''"
    by (simp add: trim_def isWhiteSpace_def)
  from extractFirstWord_spec [of "''  7 and more''"]
  have "extractFirstWord ''  7 and more'' =
     (let word = takeWhile (\<lambda>c. c \<noteq> CHR '' '') (trim ''  7 and more'')
      in if inNumberLanguage word then word else [])"
    by blast
  with l t show ?thesis by simp
qed

text \<open>
  Claim C3, as the specification words it, fails: with a tab between \<^verbatim>\<open>7\<close> and \<^verbatim>\<open>8\<close>
  the token cut at any white space is \<^verbatim>\<open>7\<close>, which the pattern accepts, while the
  code keeps the tab in its token and rejects it.
\<close>

theorem extractFirstWord_tab_counterexample:
  "extractor_spec [CHR ''7'', CHR 0x09, CHR ''8''] = ''7'' \<and>
   extractFirstWord [CHR ''7'', CHR 0x09, CHR ''8''] = []"
  by (simp add: extractor_spec_def extract_defs)

section \<open>The reducer\<close>

text \<open>
  Claim C5. From every state the reset action gives the initial state: the three
  text fields and the result empty, the axis \<^verbatim>\<open>x\<close> (horizontal), \<open>finished\<close> false.
\<close>

theorem reset_initialState:
  "reducer s RESET = initialState \<and> reset s = initialState \<and>
   previousPosition initialState = [] \<and> offsetStart initialState = [] \<and>
   offsetEnd initialState = [] \<and> result initialState = [] \<and>
   axis initialState = X \<and> finished initialState = False"
  by (simp add: reset_def initialState_def)

text \<open>
  Claim C7. In a state with \<open>finished\<close> true, the dismiss and continue action
  (\<^verbatim>\<open>SET_FINISHED\<close> with \<^verbatim>\<open>false\<close>) sets \<open>finished\<close> to false and leaves every other
  field as it was.
\<close>

theorem dismiss_frame:
  "finished s \<Longrightarrow>
   dismiss s = s\<lparr>finished := False\<rparr> \<and> finished (dismiss s) = False \<and>
   previousPosition (dismiss s) = previousPosition s \<and>
   offsetStart (dismiss s) = offsetStart s \<and> offsetEnd (dismiss s) = offsetEnd s \<and>
   axis (dismiss s) = axis s \<and> result (dismiss s) = result s"
  by (simp add: dismiss_def)

theorem dismiss_frame_witness:
  "finished (initialState\<lparr>previousPosition := ''120'', finished := True\<rparr>) \<and>
   dismiss (initialState\<lparr>previousPosition := ''120'', finished := True\<rparr>) =
     initialState\<lparr>previousPosition := ''120''\<rparr>"
  using dismiss_frame [of "initialState\<lparr>previousPosition := ''120'', finished := True\<rparr>"]
  by (simp add: initialState_def)

text \<open>
  Claim C8. Two states with the same three text fields have the same new position,
  the same text on the clipboard and the same result, whatever their axes are: the
  calculation does not read the axis.
\<close>

theorem axis_cosmetic:
  "previousPosition s = previousPosition t \<Longrightarrow> offsetStart s = offsetStart t \<Longrightarrow>
   offsetEnd s = offsetEnd t \<Longrightarrow>
   newPosition s = newPosition t \<and>
   fst (calculateCenter s) = fst (calculateCenter t) \<and>
   result (snd (calculateCenter s)) = result (snd (calculateCenter t))"
  by (simp add: newPosition_def calculateCenter_def Let_def)

theorem axis_cosmetic_witness:
  "axis (setAxis Y initialState) \<noteq> axis initialState \<and>
   newPosition (setAxis Y initialState) = newPosition initialState \<and>
   fst (calculateCenter (setAxis Y initialState)) = fst (calculateCenter initialState) \<and>
   result (snd (calculateCenter (setAxis Y initialState))) =
     result (snd (calculateCenter initialState))"
  using axis_cosmetic [of "setAxis Y initialState" initialState]
  by (simp add: setAxis_def initialState_def)

text \<open>
  Claim C10. An edit action changes its own field only. \<^verbatim>\<open>SET_AXIS\<close> leaves the three
  text fields, the result and \<open>finished\<close>; the setter and the increment of a text
  field leave the axis, the result, \<open>finished\<close> and the two other text fields. This
  holds for every payload, so also for the sanitised text of \<open>onChange\<close> and the two
  steps of \<open>onInc\<close>.
\<close>

theorem edit_frame:
  "reducer s (SET_AXIS a) = s\<lparr>axis := a\<rparr> \<and>
   (\<forall>g. field g (reducer s (SET_AXIS a)) = field g s) \<and>
   result (reducer s (SET_AXIS a)) = result s \<and>
   finished (reducer s (SET_AXIS a)) = finished s \<and>
   field f (reducer s (setter f v)) = v \<and>
   axis (reducer s (setter f v)) = axis s \<and>
   result (reducer s (setter f v)) = result s \<and>
   finished (reducer s (setter f v)) = finished s \<and>
   (\<forall>g. g \<noteq> f \<longrightarrow> field g (reducer s (setter f v)) = field g s) \<and>
   field f (reducer s (incrementer f d)) = incrementIfValid (field f s) d \<and>
   axis (reducer s (incrementer f d)) = axis s \<and>
   result (reducer s (incrementer f d)) = result s \<and>
   finished (reducer s (incrementer f d)) = finished s \<and>
   (\<forall>g. g \<noteq> f \<longrightarrow> field g (reducer s (incrementer f d)) = field g s)"
proof -
  have axis_fields: "field g (reducer s (SET_AXIS a)) = field g s" for g
    by (cases g) simp_all
  have set_other: "g \<noteq> f \<Longrightarrow> field g (reducer s (setter f v)) = field g s" for g
    by (cases f; cases g) simp_all
  have inc_other: "g \<noteq> f \<Longrightarrow> field g (reducer s (incrementer f d)) = field g s" for g
    by (cases f; cases g) simp_all
  have set_own: "field f (reducer s (setter f v)) = v \<and>
      axis (reducer s (setter f v)) = axis s \<and>
      result (reducer s (setter f v)) = result s \<and>
      finished (reducer s (setter f v)) = finished s"
    by (cases f) simp_all
  have inc_own: "field f (reducer s (incrementer f d)) = incrementIfValid (field f s) d \<and>
      axis (reducer s (incrementer f d)) = axis s \<and>
      result (reducer s (incrementer f d)) = result s \<and>
      finished (reducer s (incrementer f d)) = finished s"
    by (cases f) simp_all
  show ?thesis
    using axis_fields set_other inc_other set_own inc_own by simp
qed

theorem edit_frame_witness:
  "OffsetStart \<noteq> PreviousPosition \<and>
   onChange PreviousPosition ''12 x'' initialState = initialState\<lparr>previousPosition := ''12''\<rparr> \<and>
   field OffsetStart (onChange PreviousPosition ''12 x'' initialState) =
     field OffsetStart initialState \<and>
   field OffsetStart (onInc PreviousPosition INCREMENT initialState) =
     field OffsetStart initialState"
  using edit_frame [of initialState X PreviousPosition "extractFirstWord ''12 x''" INCREMENT]
  by (simp add: onChange_def onInc_def extract_defs initialState_def)

section \<open>Lemmas: evaluating the arithmetic\<close>

lemma floor_rat_numeral: "\<lfloor>numeral a / numeral b :: rat\<rfloor> = numeral a div numeral b"
  by (metis floor_divide_of_int_eq of_int_numeral)

lemma floor_rat_one: "\<lfloor>1 / numeral b :: rat\<rfloor> = 1 div numeral b"
  by (metis floor_divide_of_int_eq of_int_numeral of_int_1)

lemma floor_rat_minus:
  "\<lfloor>- (numeral a / numeral b) :: rat\<rfloor> = - numeral a div numeral b"
  by (metis divide_minus_left floor_divide_of_int_eq of_int_neg_numeral of_int_numeral)

lemma ceiling_rat_numeral:
  "\<lceil>numeral a / numeral b :: rat\<rceil> = - (- numeral a div numeral b)"
  by (simp add: ceiling_def floor_rat_minus)

lemma floorlog_numeral:
  "floorlog b (numeral n) = (if 1 < b then floorlog b (numeral n div b) + 1 else 0)"
  by (subst compute_floorlog) simp

lemma floorlog_one: "floorlog b (Suc 0) = (if 1 < b then 1 else 0)"
  by (subst compute_floorlog) (simp add: floorlog_eq_zero_iff)

lemma floorlog_zero: "floorlog b 0 = 0"
  by (simp add: floorlog_eq_zero_iff)



lemma replicate_numeral: "replicate (numeral k) x = x # replicate (pred_numeral k) x"
  by (simp add: numeral_eq_Suc)

lemmas rat_floor = floor_rat_numeral floor_rat_one floor_rat_minus ceiling_rat_numeral

lemmas rnd_big = roundMagnitude_def pow2_def roundHalfEven_def Let_def rat_floor

lemmas rnd_defs = rnd_big floorlogRat_def floorlog_numeral floorlog_one floorlog_zero

lemmas num_defs =
  Number_def parseFloat_def trimStart_def trim_def isWhiteSpace_def scanDecimal_def
  scanUnsigned_def startsWith_def isDigit_def scanExponent_def digitsValue_def
  digitVal_def pow10_def fromRat_def nonDecimal_def baseDigits_def rnd_defs

lemmas arith_defs =
  num_sub_def signed_def ofRat_def fromRat_def precise_def lit_1e8_def lit_2_def
  INCREMENT_def rnd_defs

lemmas cand_defs = candidates_def pow10_def Let_def roundsTo_def rat_floor

lemmas fmt_defs =
  formatPositive_def showDigits_def digitChar_def showNat_def replicate_numeral
  floorlog_numeral floorlog_one floorlog_zero Let_def upt_conv_Cons

text \<open>The triple of \<open>shortest\<close> from the candidates of one and of two digits.\<close>

lemma shortest_one_digit:
  "floorlogRat 10 x + 1 = n0 \<Longrightarrow> candidates x n0 (Suc 0) = s # ss \<Longrightarrow> s \<noteq> 10 \<Longrightarrow>
   shortest x = (n0, 1, s)"
  by (simp add: shortest_def enoughDigits_def upt_conv_Cons)

lemma shortest_carry:
  "floorlogRat 10 x + 1 = n0 \<Longrightarrow> candidates x n0 (Suc 0) = 10 # ss \<Longrightarrow>
   shortest x = (n0 + 1, 1, 1)"
  by (simp add: shortest_def enoughDigits_def upt_conv_Cons)

lemma shortest_two_digits:
  "floorlogRat 10 x + 1 = n0 \<Longrightarrow> candidates x n0 (Suc 0) = [] \<Longrightarrow>
   candidates x n0 (Suc (Suc 0)) = s # ss \<Longrightarrow> s \<noteq> 100 \<Longrightarrow> shortest x = (n0, 2, s)"
  by (simp add: shortest_def enoughDigits_def upt_conv_Cons)

section \<open>Lemmas: not-a-number\<close>

lemma num_add_NaN: "num_add x NaN = NaN" "num_add NaN y = NaN"
  by (cases x) simp_all

lemma num_mul_NaN: "num_mul x NaN = NaN" "num_mul NaN y = NaN"
  by (cases x) simp_all

lemma num_div_NaN: "num_div x NaN = NaN" "num_div NaN y = NaN"
  by (cases x) simp_all

lemma num_sub_NaN: "num_sub x NaN = NaN" "num_sub NaN y = NaN"
  by (simp_all add: num_sub_def num_add_NaN)

lemma precise_NaN: "precise NaN = NaN"
  by (simp add: precise_def)

lemmas NaN_simps = num_add_NaN num_mul_NaN num_div_NaN num_sub_NaN precise_NaN

lemma isNaN_iff: "isNaN x \<longleftrightarrow> x = NaN"
  by (cases x) simp_all

lemma newPosition_NaN:
  assumes "isNaN (Number (previousPosition s)) \<or> isNaN (Number (offsetStart s)) \<or>
     isNaN (Number (offsetEnd s))"
  shows "newPosition s = NaN"
  using assms by (auto simp: newPosition_def Let_def isNaN_iff NaN_simps)

lemma unparseable_texts:
  "Number ''-'' = NaN" "Number ''.'' = NaN" "Number ''-.'' = NaN" "Number ''abc'' = NaN"
  "parseFloat ''-'' = NaN" "parseFloat ''Infinity'' = Infinity False"
  by (simp_all add: num_defs)

lemma Number_empty: "Number [] = Finite False 0"
  by (simp add: Number_def trim_def)

section \<open>Lemmas: the texts of some Numbers\<close>

lemma toString_100: "toString (Finite False 100) = ''100''"
proof -
  have fl: "floorlogRat 10 100 + 1 = 3"
    by (simp add: rnd_defs)
  have c: "candidates 100 3 (Suc 0) = [1]"
    apply (simp add: cand_defs)
    apply (simp add: rnd_defs)
    done
  have "shortest 100 = (3, 1, 1)"
    using shortest_one_digit [OF fl c] by simp
  then show ?thesis by (simp add: fmt_defs)
qed

lemma toString_minus_10: "toString (Finite True 10) = ''-10''"
proof -
  have fl: "floorlogRat 10 10 + 1 = 2"
    by (simp add: rnd_defs)
  have c: "candidates 10 2 (Suc 0) = [1]"
    apply (simp add: cand_defs)
    apply (simp add: rnd_defs)
    done
  have "shortest 10 = (2, 1, 1)"
    using shortest_one_digit [OF fl c] by simp
  then show ?thesis by (simp add: fmt_defs)
qed




text \<open>
  The Number nearest \<open>1 / 10 ^ 7\<close> lies just below it; the nearest decimal of one
  digit is \<open>10 * 10 ^ - 8\<close>, and the text is in scientific notation.
\<close>

lemma toString_1e_7:
  "toString (Finite False (944473296573929 / 9444732965739290427392)) = ''1e-7''"
proof -
  let ?x = "944473296573929 / 9444732965739290427392 :: rat"
  have fl: "floorlogRat 10 ?x + 1 = - 7"
    by (simp add: rnd_defs)
  have c: "candidates ?x (- 7) (Suc 0) = [10]"
    apply (simp add: cand_defs)
    apply (simp add: rnd_defs)
    done
  have "shortest ?x = (- 7 + 1, 1, 1)"
    using fl c by (rule shortest_carry)
  then show ?thesis by (simp add: fmt_defs)
qed

text \<open>
  The Number nearest \<open>15 / 100\<close> is \<open>5404319552844595 / 2 ^ 55\<close>, and the Number
  nearest \<open>3 / 10\<close> is \<open>5404319552844595 / 2 ^ 54\<close>.
\<close>

lemma toString_minus_0_15:
  "toString (Finite True (5404319552844595 / 36028797018963968)) = ''-0.15''"
proof -
  let ?x = "5404319552844595 / 36028797018963968 :: rat"
  have fl: "floorlogRat 10 ?x + 1 = 0"
    by (simp add: rnd_defs)
  have c1: "candidates ?x 0 (Suc 0) = []"
    apply (simp add: cand_defs)
    apply (simp add: rnd_defs)
    done
  have c2: "candidates ?x 0 (Suc (Suc 0)) = [15]"
    apply (simp add: cand_defs)
    apply (simp add: rnd_defs)
    done
  have "shortest ?x = (0, 2, 15)"
    using shortest_two_digits [OF fl c1 c2] by simp
  then show ?thesis by (simp add: fmt_defs)
qed


section \<open>Lemmas: positional notation matches the pattern\<close>

lemma isDigit_digitChar: "d < 10 \<Longrightarrow> isDigit (digitChar d)"
proof -
  assume "d < 10"
  then have "d < length ''0123456789''" by simp
  then have "''0123456789'' ! d \<in> set ''0123456789''" by (rule nth_mem)
  then show ?thesis by (simp only: isDigit_def digitChar_def)
qed

lemma showDigits_digits: "\<forall>c \<in> set (showDigits k s). isDigit c"
  by (auto simp: showDigits_def intro: isDigit_digitChar)

lemma languageI:
  "(ms = [] \<or> ms = ''-'') \<Longrightarrow> \<forall>c \<in> set a. isDigit c \<Longrightarrow> (pt = [] \<or> pt = ''.'') \<Longrightarrow>
   \<forall>c \<in> set b. isDigit c \<Longrightarrow> numberPattern (ms @ a @ pt @ b)"
  unfolding numberPattern_iff inNumberLanguage_def by blast

lemma zero_digit: "isDigit CHR ''0''"
  by (simp add: isDigit_def)

lemma formatPositive_positional:
  assumes "shortest x = (n, k, s)" "- 5 \<le> n" "n \<le> 21" "ms = [] \<or> ms = ''-''"
  shows "numberPattern (ms @ formatPositive x)"
proof -
  let ?ds = "showDigits k s"
  have ds: "\<forall>c \<in> set ?ds. isDigit c" by (rule showDigits_digits)
  consider (whole) "int k \<le> n" | (parted) "\<not> int k \<le> n" "0 < n"
    | (small) "\<not> int k \<le> n" "\<not> 0 < n"
    by blast
  then show ?thesis
  proof cases
    case whole
    have "\<forall>c \<in> set (?ds @ replicate (nat n - k) CHR ''0''). isDigit c"
      using ds zero_digit by auto
    from languageI [OF assms(4) this, of "[]" "[]"]
    show ?thesis using assms(1-3) whole by (simp add: formatPositive_def Let_def)
  next
    case parted
    have "\<forall>c \<in> set (take (nat n) ?ds). isDigit c" "\<forall>c \<in> set (drop (nat n) ?ds). isDigit c"
      using ds by (auto dest: in_set_takeD in_set_dropD)
    from languageI [OF assms(4) this(1) _ this(2), of "''.''"]
    show ?thesis using assms(1-3) parted by (simp add: formatPositive_def Let_def)
  next
    case small
    have "\<forall>c \<in> set ''0''. isDigit c"
      "\<forall>c \<in> set (replicate (nat (- n)) CHR ''0'' @ ?ds). isDigit c"
      using ds zero_digit by auto
    from languageI [OF assms(4) this(1) _ this(2), of "''.''"]
    show ?thesis using assms(1-3) small by (simp add: formatPositive_def Let_def)
  qed
qed

lemma toString_positional:
  assumes "positional x"
  shows "numberPattern (toString x)"
proof (cases x)
  case NaN
  with assms show ?thesis by (simp add: positional_def)
next
  case (Infinity sg)
  with assms show ?thesis by (simp add: positional_def)
next
  case (Finite sg a)
  show ?thesis
  proof (cases "a = 0")
    case True
    with Finite show ?thesis
      by (simp add: numberPattern_def dropOpt_def isDigit_def)
  next
    case False
    obtain n k s where sh: "shortest a = (n, k, s)"
      by (cases "shortest a") auto
    with assms Finite False have n: "- 5 \<le> n" "n \<le> 21"
      by (simp_all add: positional_def)
    have "(if sg then ''-'' else []) = [] \<or> (if sg then ''-'' else []) = ''-''"
      by simp
    from formatPositive_positional [OF sh n this]
    show ?thesis using Finite False by simp
  qed
qed

lemma incrementIfValid_positional:
  assumes "txt = [] \<Longrightarrow> positional d"
    and "txt \<noteq> [] \<Longrightarrow> isValidNumber (num_add (parseFloat txt) d) \<Longrightarrow>
      positional (precise (num_add (parseFloat txt) d))"
  shows "numberPattern (incrementIfValid txt d)"
proof (cases "txt = []")
  case True
  with assms(1) show ?thesis
    by (simp add: incrementIfValid_def toString_positional del: toString.simps)
next
  case False
  show ?thesis
  proof (cases "isValidNumber (num_add (parseFloat txt) d)")
    case True
    with False assms(2) show ?thesis
      by (simp add: incrementIfValid_def Let_def toString_positional del: toString.simps)
  next
    case invalid: False
    with False show ?thesis
      by (simp add: incrementIfValid_def Let_def numberPattern_def dropOpt_def isDigit_def)
  qed
qed

lemma onInc_fieldsValid:
  "fieldsValid s \<Longrightarrow> numberPattern (incrementIfValid (field f s) d) \<Longrightarrow>
   fieldsValid (onInc f d s)"
  by (cases f) (simp_all add: onInc_def fieldsValid_def)

section \<open>Lemmas: increments\<close>





lemma near_zero_plus_INCREMENT:
  "num_add (parseFloat ''-0.0999999'') INCREMENT =
     Finite False (1801439851 / 18014398509481984)"
  by (simp add: num_defs arith_defs)

lemma precise_near_1e_7:
  "precise (Finite False (1801439851 / 18014398509481984)) =
     Finite False (944473296573929 / 9444732965739290427392)"
  by (simp add: arith_defs)





section \<open>The calculation\<close>

text \<open>
  Claim C1. \<open>calculateCenter\<close> converts the three text fields with \<^verbatim>\<open>Number\<close>, takes
  \<open>shift = (offsetStart + offsetEnd) / 2 - offsetStart\<close>, stores the text of
  \<open>precise (previousPosition - shift)\<close> in \<open>result\<close> (the same text goes to the
  clipboard), sets \<open>finished\<close> and leaves the other fields; \<open>precise\<close> multiplies by
  \<open>10 ^ 8\<close>, rounds to an integer and divides by \<open>10 ^ 8\<close>. With the fields
  \<^verbatim>\<open>120\<close>, \<^verbatim>\<open>20\<close>, \<^verbatim>\<open>60\<close> the result is \<^verbatim>\<open>100\<close>; with \<^verbatim>\<open>0\<close>, \<^verbatim>\<open>-10\<close>, \<^verbatim>\<open>10\<close> it
  is \<^verbatim>\<open>-10\<close>. With \<^verbatim>\<open>0.1\<close>, \<^verbatim>\<open>0.2\<close>, \<^verbatim>\<open>0.7\<close> the difference in binary64 is
  \<open>- 5404319552844593 / 2 ^ 55\<close> (it would print as \<^verbatim>\<open>-0.14999999999999994\<close>), and
  the rounding makes the result \<^verbatim>\<open>-0.15\<close>.
\<close>

theorem calculateCenter_spec:
  "result (snd (calculateCenter s)) =
     toString (precise (num_sub (Number (previousPosition s))
       (num_sub (num_div (num_add (Number (offsetStart s)) (Number (offsetEnd s))) lit_2)
          (Number (offsetStart s))))) \<and>
   fst (calculateCenter s) = result (snd (calculateCenter s)) \<and>
   finished (snd (calculateCenter s)) = True \<and>
   snd (calculateCenter s) = s\<lparr>result := fst (calculateCenter s), finished := True\<rparr> \<and>
   lit_2 = Finite False 2 \<and>
   result (snd (calculateCenter
     (st\<lparr>previousPosition := ''120'', offsetStart := ''20'', offsetEnd := ''60''\<rparr>))) = ''100'' \<and>
   result (snd (calculateCenter
     (st\<lparr>previousPosition := ''0'', offsetStart := ''-10'', offsetEnd := ''10''\<rparr>))) = ''-10'' \<and>
   precise y = num_div (Math_round (num_mul y lit_1e8)) lit_1e8 \<and>
   lit_1e8 = Finite False (10 ^ 8) \<and>
   result (snd (calculateCenter s)) =
     toString (num_div (Math_round (num_mul
       (num_sub (Number (previousPosition s))
         (num_sub (num_div (num_add (Number (offsetStart s)) (Number (offsetEnd s))) lit_2)
            (Number (offsetStart s))))
       lit_1e8)) lit_1e8) \<and>
   num_sub (Number ''0.1'')
     (num_sub (num_div (num_add (Number ''0.2'') (Number ''0.7'')) lit_2) (Number ''0.2'')) =
     Finite True (5404319552844593 / 36028797018963968) \<and>
   newPosition (st\<lparr>previousPosition := ''0.1'', offsetStart := ''0.2'', offsetEnd := ''0.7''\<rparr>) =
     Finite True (5404319552844595 / 36028797018963968) \<and>
   result (snd (calculateCenter
     (st\<lparr>previousPosition := ''0.1'', offsetStart := ''0.2'', offsetEnd := ''0.7''\<rparr>))) =
     ''-0.15''"
proof -
  have n3: "newPosition (st\<lparr>previousPosition := ''0.1'', offsetStart := ''0.2'',
      offsetEnd := ''0.7''\<rparr>) = Finite True (5404319552844595 / 36028797018963968)"
    by (simp add: newPosition_def num_defs arith_defs)
  have raw3: "num_sub (Number ''0.1'')
     (num_sub (num_div (num_add (Number ''0.2'') (Number ''0.7'')) lit_2) (Number ''0.2'')) =
     Finite True (5404319552844593 / 36028797018963968)"
    by (simp add: num_defs arith_defs)
  have e3: "result (snd (calculateCenter
     (st\<lparr>previousPosition := ''0.1'', offsetStart := ''0.2'', offsetEnd := ''0.7''\<rparr>))) =
     ''-0.15''"
    by (simp add: calculateCenter_def Let_def n3 toString_minus_0_15 del: toString.simps)
  have unfolded: "precise y = num_div (Math_round (num_mul y lit_1e8)) lit_1e8"
    by (simp add: precise_def)
  have e8: "lit_1e8 = Finite False (10 ^ 8)"
    by (simp add: arith_defs)
  have arithmetic: "result (snd (calculateCenter s)) =
     toString (num_div (Math_round (num_mul
       (num_sub (Number (previousPosition s))
         (num_sub (num_div (num_add (Number (offsetStart s)) (Number (offsetEnd s))) lit_2)
            (Number (offsetStart s))))
       lit_1e8)) lit_1e8)"
    by (simp add: calculateCenter_def newPosition_def Let_def precise_def)
  have n1: "newPosition (st\<lparr>previousPosition := ''120'', offsetStart := ''20'',
      offsetEnd := ''60''\<rparr>) = Finite False 100"
    by (simp add: newPosition_def num_defs arith_defs)
  have n2: "newPosition (st\<lparr>previousPosition := ''0'', offsetStart := ''-10'',
      offsetEnd := ''10''\<rparr>) = Finite True 10"
    by (simp add: newPosition_def num_defs arith_defs)
  have two: "lit_2 = Finite False 2"
    by (simp add: arith_defs)
  have general: "result (snd (calculateCenter s)) =
     toString (precise (num_sub (Number (previousPosition s))
       (num_sub (num_div (num_add (Number (offsetStart s)) (Number (offsetEnd s))) lit_2)
          (Number (offsetStart s))))) \<and>
   fst (calculateCenter s) = result (snd (calculateCenter s)) \<and>
   finished (snd (calculateCenter s)) = True \<and>
   snd (calculateCenter s) = s\<lparr>result := fst (calculateCenter s), finished := True\<rparr>"
    by (simp add: calculateCenter_def newPosition_def Let_def)
  have e1: "result (snd (calculateCenter
     (st\<lparr>previousPosition := ''120'', offsetStart := ''20'', offsetEnd := ''60''\<rparr>))) = ''100''"
    by (simp add: calculateCenter_def Let_def n1 toString_100 del: toString.simps)
  have e2: "result (snd (calculateCenter
     (st\<lparr>previousPosition := ''0'', offsetStart := ''-10'', offsetEnd := ''10''\<rparr>))) = ''-10''"
    by (simp add: calculateCenter_def Let_def n2 toString_minus_10 del: toString.simps)
  from general two e1 e2 unfolded e8 arithmetic raw3 n3 e3 show ?thesis by blast
qed

theorem calculateCenter_spec_witness:
  "calculateCenter (initialState\<lparr>previousPosition := ''120'', offsetStart := ''20'',
      offsetEnd := ''60''\<rparr>) =
   (''100'', \<lparr>axis = X, previousPosition = ''120'', offsetStart = ''20'', offsetEnd = ''60'',
       result = ''100'', finished = True\<rparr>)"
proof -
  let ?s = "initialState\<lparr>previousPosition := ''120'', offsetStart := ''20'',
      offsetEnd := ''60''\<rparr>"
  note spec = calculateCenter_spec [of ?s initialState]
  from spec have r: "result (snd (calculateCenter ?s)) = ''100''"
    by blast
  from spec have f: "fst (calculateCenter ?s) = result (snd (calculateCenter ?s))"
    by blast
  from spec have sn: "snd (calculateCenter ?s) =
      ?s\<lparr>result := fst (calculateCenter ?s), finished := True\<rparr>"
    by blast
  from f r have f': "fst (calculateCenter ?s) = ''100''"
    by (rule trans)
  from sn have s': "snd (calculateCenter ?s) = ?s\<lparr>result := ''100'', finished := True\<rparr>"
    by (simp only: f')
  have "calculateCenter ?s = (fst (calculateCenter ?s), snd (calculateCenter ?s))"
    by (rule prod.collapse [symmetric])
  also have "\<dots> = (''100'', ?s\<lparr>result := ''100'', finished := True\<rparr>)"
    by (simp only: f' s')
  also have "\<dots> = (''100'', \<lparr>axis = X, previousPosition = ''120'', offsetStart = ''20'',
      offsetEnd = ''60'', result = ''100'', finished = True\<rparr>)"
    by (simp add: initialState_def)
  finally show ?thesis .
qed

text \<open>
  Claim C9. \<open>precise\<close> multiplies by \<open>10 ^ 8\<close>, rounds with \<^verbatim>\<open>Math.round\<close> (an integer
  at most a half away) and divides by \<open>10 ^ 8\<close>. In binary64, \<^verbatim>\<open>0.1 + 0.2 - 0.3\<close> is
  \<open>1 / 2 ^ 54\<close>, not zero, and \<open>precise\<close> of it is exactly \<open>+0\<close>.
\<close>

theorem precise_spec:
  "precise x = num_div (Math_round (num_mul x lit_1e8)) lit_1e8 \<and>
   lit_1e8 = Finite False (10 ^ 8) \<and>
   (\<exists>k::int. Math_round (Finite sg a) = Finite sg \<bar>of_int k\<bar> \<and>
      \<bar>of_int k - signed sg a\<bar> \<le> 1 / 2) \<and>
   num_sub (num_add (ofRat (1 / 10)) (ofRat (2 / 10))) (ofRat (3 / 10)) =
     Finite False (1 / 2 ^ 54) \<and>
   precise (num_sub (num_add (ofRat (1 / 10)) (ofRat (2 / 10))) (ofRat (3 / 10))) =
     Finite False 0"
proof -
  have nearest: "\<exists>k::int. Math_round (Finite sg a) = Finite sg \<bar>of_int k\<bar> \<and>
      \<bar>of_int k - signed sg a\<bar> \<le> 1 / 2"
  proof -
    let ?v = "signed sg a"
    let ?k = "\<lfloor>?v + 1 / 2\<rfloor>"
    have "of_int ?k \<le> ?v + 1 / 2" "?v + 1 / 2 < of_int ?k + 1"
      by linarith+
    then have "\<bar>of_int ?k - ?v\<bar> \<le> 1 / 2" by linarith
    then show ?thesis by (intro exI [of _ ?k]) simp
  qed
  have residue: "num_sub (num_add (ofRat (1 / 10)) (ofRat (1 / 5))) (ofRat (3 / 10)) =
      Finite False (1 / 18014398509481984)"
    by (simp add: arith_defs)
  have rounded: "precise (Finite False (1 / 18014398509481984)) = Finite False 0"
    by (simp add: arith_defs)
  have "precise x = num_div (Math_round (num_mul x lit_1e8)) lit_1e8"
    by (simp add: precise_def)
  moreover have "lit_1e8 = Finite False (10 ^ 8)"
    by (simp add: arith_defs)
  moreover have "num_sub (num_add (ofRat (1 / 10)) (ofRat (2 / 10))) (ofRat (3 / 10)) =
      Finite False (1 / 2 ^ 54)"
    by (simp add: residue)
  moreover have "precise (num_sub (num_add (ofRat (1 / 10)) (ofRat (2 / 10)))
      (ofRat (3 / 10))) = Finite False 0"
    by (simp add: residue rounded)
  ultimately show ?thesis using nearest by blast
qed

text \<open>
  Claim C2, as the code has it. When the \<^verbatim>\<open>Number\<close> of one of the three fields is
  not-a-number, the new position is not-a-number and the result is the text \<^verbatim>\<open>NaN\<close>;
  the state is still updated and \<open>finished\<close> set. The texts \<^verbatim>\<open>-\<close>, \<^verbatim>\<open>.\<close> and \<^verbatim>\<open>-.\<close>, which
  the pattern of the fields accepts, and \<^verbatim>\<open>abc\<close> are such fields. The empty text is
  not: \<^verbatim>\<open>Number('')\<close> is \<open>+0\<close>.
\<close>

theorem calculateCenter_NaN:
  "(isNaN (Number (previousPosition s)) \<or> isNaN (Number (offsetStart s)) \<or>
      isNaN (Number (offsetEnd s)) \<longrightarrow>
    newPosition s = NaN \<and> fst (calculateCenter s) = ''NaN'' \<and>
    result (snd (calculateCenter s)) = ''NaN'' \<and> finished (snd (calculateCenter s))) \<and>
   Number ''-'' = NaN \<and> Number ''.'' = NaN \<and> Number ''-.'' = NaN \<and>
   Number ''abc'' = NaN \<and> Number [] = Finite False 0"
proof -
  have "newPosition s = NaN \<and> fst (calculateCenter s) = ''NaN'' \<and>
    result (snd (calculateCenter s)) = ''NaN'' \<and> finished (snd (calculateCenter s))"
    if "isNaN (Number (previousPosition s)) \<or> isNaN (Number (offsetStart s)) \<or>
      isNaN (Number (offsetEnd s))"
  proof -
    from that have "newPosition s = NaN" by (rule newPosition_NaN)
    then show ?thesis by (simp add: calculateCenter_def Let_def)
  qed
  then show ?thesis
    using unparseable_texts(1-4) Number_empty by blast
qed

theorem calculateCenter_NaN_witness:
  "isNaN (Number (offsetStart (initialState\<lparr>offsetStart := ''-''\<rparr>))) \<and>
   result (snd (calculateCenter (initialState\<lparr>offsetStart := ''-''\<rparr>))) = ''NaN''"
proof -
  have "isNaN (Number (offsetStart (initialState\<lparr>offsetStart := ''-''\<rparr>)))"
    by (simp add: unparseable_texts)
  with calculateCenter_NaN [of "initialState\<lparr>offsetStart := ''-''\<rparr>"]
  show ?thesis by blast
qed

text \<open>
  Claim C2, as the specification words it, fails on empty fields: in the initial
  state the three fields are empty, the new position is \<open>+0\<close> and the result is the
  text \<^verbatim>\<open>0\<close>.
\<close>

theorem calculateCenter_empty_counterexample:
  "previousPosition initialState = [] \<and> offsetStart initialState = [] \<and>
   offsetEnd initialState = [] \<and> newPosition initialState = Finite False 0 \<and>
   result (snd (calculateCenter initialState)) = ''0''"
proof -
  have "newPosition initialState = Finite False 0"
    by (simp add: newPosition_def initialState_def Number_empty arith_defs)
  then show ?thesis
    by (simp add: calculateCenter_def Let_def initialState_def)
qed

section \<open>Increments\<close>




section \<open>The constraint of the text fields\<close>

text \<open>
  The initial state satisfies the constraint of the three text fields, and the axis
  toggle, the change of a field (whose text goes through \<open>extractFirstWord\<close>), the
  calculation, the dismissal, the reset and the actions \<^verbatim>\<open>SET_RESULT\<close> and
  \<^verbatim>\<open>SET_FINISHED\<close> preserve it; the text that \<open>extractFirstWord\<close> returns always
  matches the pattern. An increment preserves it as well whenever the Number it
  stores prints in positional notation: the delta on an empty field, \<open>precise\<close> of
  the sum on another.
\<close>

theorem fieldsValid_preserved:
  "fieldsValid initialState \<and>
   numberPattern (extractFirstWord v) \<and>
   (fieldsValid s \<longrightarrow>
      fieldsValid (setAxis a s) \<and> fieldsValid (onChange f v s) \<and>
      fieldsValid (snd (calculateCenter s)) \<and> fieldsValid (dismiss s) \<and>
      fieldsValid (reset s) \<and> fieldsValid (reducer s (SET_RESULT r)) \<and>
      fieldsValid (reducer s (SET_FINISHED b))) \<and>
   (fieldsValid s \<longrightarrow>
      (field f s = [] \<longrightarrow> positional d) \<longrightarrow>
      (field f s \<noteq> [] \<longrightarrow> isValidNumber (num_add (parseFloat (field f s)) d) \<longrightarrow>
         positional (precise (num_add (parseFloat (field f s)) d))) \<longrightarrow>
      fieldsValid (onInc f d s))"
proof -
  have empty: "numberPattern []"
    by (simp add: numberPattern_def dropOpt_def)
  have init: "fieldsValid initialState"
    by (simp add: fieldsValid_def initialState_def empty)
  have word: "numberPattern (extractFirstWord v)"
    by (simp add: extractFirstWord_def Let_def empty)
  have change: "fieldsValid (onChange f v s)" if "fieldsValid s"
    using that word by (cases f) (simp_all add: onChange_def fieldsValid_def)
  have rest: "fieldsValid (setAxis a s) \<and> fieldsValid (snd (calculateCenter s)) \<and>
      fieldsValid (dismiss s) \<and> fieldsValid (reset s) \<and>
      fieldsValid (reducer s (SET_RESULT r)) \<and> fieldsValid (reducer s (SET_FINISHED b))"
    if "fieldsValid s"
    using that init
    by (simp add: fieldsValid_def setAxis_def calculateCenter_def Let_def dismiss_def reset_def)
  have inc: "fieldsValid (onInc f d s)"
    if "fieldsValid s" "field f s = [] \<longrightarrow> positional d"
      "field f s \<noteq> [] \<longrightarrow> isValidNumber (num_add (parseFloat (field f s)) d) \<longrightarrow>
         positional (precise (num_add (parseFloat (field f s)) d))"
  proof -
    have "numberPattern (incrementIfValid (field f s) d)"
      using that(2,3) by (intro incrementIfValid_positional) blast+
    with that(1) show ?thesis by (rule onInc_fieldsValid)
  qed
  from init word change rest inc show ?thesis by blast
qed

theorem fieldsValid_preserved_witness:
  "fieldsValid initialState \<and>
   previousPosition (onChange PreviousPosition ''12.5 mm'' initialState) = ''12.5'' \<and>
   fieldsValid (onChange PreviousPosition ''12.5 mm'' initialState)"
proof -
  have i: "fieldsValid initialState"
    using fieldsValid_preserved [of "[]" initialState X PreviousPosition "[]" False] by blast
  have "fieldsValid (onChange PreviousPosition ''12.5 mm'' initialState)"
    using fieldsValid_preserved [of "''12.5 mm''" initialState X PreviousPosition "[]" False] i
    by blast
  moreover have "previousPosition (onChange PreviousPosition ''12.5 mm'' initialState) = ''12.5''"
    by (simp add: onChange_def extract_defs)
  ultimately show ?thesis using i by blast
qed

text \<open>
  Claim C6 says that in every reachable state each of the three text fields is empty
  or matches the pattern, and that the increment preserves this. The code does not
  keep it. Typing \<^verbatim>\<open>-0.0999999\<close> in the first field and pressing its upper arrow once
  is a run of the form, and the state before the arrow satisfies the constraint; the
  sum is about \<open>1.0000000000288 / 10 ^ 7\<close>, \<open>precise\<close> makes it the Number nearest
  \<open>1 / 10 ^ 7\<close>, and its text \<^verbatim>\<open>1e-7\<close> is stored in the field: a text that
  \<open>extractFirstWord\<close>, the filter of the typing path, rejects.
\<close>

theorem increment_stores_exponent_text:
  "reachable (onInc PreviousPosition INCREMENT
      (onChange PreviousPosition ''-0.0999999'' initialState)) \<and>
   fieldsValid (onChange PreviousPosition ''-0.0999999'' initialState) \<and>
   previousPosition (onInc PreviousPosition INCREMENT
      (onChange PreviousPosition ''-0.0999999'' initialState)) = ''1e-7'' \<and>
   \<not> fieldsValid (onInc PreviousPosition INCREMENT
      (onChange PreviousPosition ''-0.0999999'' initialState)) \<and>
   extractFirstWord ''1e-7'' = []"
proof -
  let ?s1 = "onChange PreviousPosition ''-0.0999999'' initialState"
  let ?s2 = "onInc PreviousPosition INCREMENT ?s1"
  have r: "reachable ?s2"
    by (intro reachable.incr reachable.change reachable.init)
  have p1: "previousPosition ?s1 = ''-0.0999999''"
    by (simp add: onChange_def extract_defs)
  have v1: "fieldsValid ?s1"
    by (simp add: fieldsValid_def onChange_def initialState_def extract_defs)
  have "incrementIfValid ''-0.0999999'' INCREMENT = ''1e-7''"
    by (simp add: incrementIfValid_def Let_def isValidNumber_def near_zero_plus_INCREMENT
        precise_near_1e_7 toString_1e_7 del: toString.simps)
  with p1 have p2: "previousPosition ?s2 = ''1e-7''"
    by (simp add: onInc_def)
  have "\<not> numberPattern ''1e-7''"
    by (simp add: numberPattern_def dropOpt_def isDigit_def)
  with p2 have nv: "\<not> fieldsValid ?s2"
    by (simp add: fieldsValid_def)
  have rejected: "extractFirstWord ''1e-7'' = []"
    by (simp add: extract_defs)
  from r v1 p2 nv rejected show ?thesis by blast
qed

end
